theory Spec2Isabelle
  imports Main "HOL-Library.Option_ord"
begin

section \<open>Data model\<close>

text \<open>
  The server (\<^verbatim>\<open>server.js\<close>) keeps two pieces of state: the \<^verbatim>\<open>Drawing\<close> collection
  (one document per frame, schema in \<^verbatim>\<open>models/Drawing.js\<close>) and the room membership
  of the socket layer. Identifiers arriving in socket payloads are arbitrary JavaScript
  values; a field that is absent (\<^verbatim>\<open>undefined\<close>) is \<open>None\<close>.
\<close>

type_synonym sid = string
type_synonym flipbook_id = "string option"
type_synonym frame_index = "int option"
type_synonym time = nat

text \<open>The schema's fields. \<open>drawingData\<close> is an opaque blob, kept as its serialised text.\<close>

record drawing =
  flipbookId :: flipbook_id
  frameIndex :: frame_index
  drawingData :: string
  createdAt :: time
  updatedAt :: time
  createdBy :: string

datatype store_error = StoreFailure | DuplicateKey

section \<open>The Drawing collection\<close>

text \<open>
  The collection is the list of its documents in insertion order. Every query of the
  source is a call into the database driver that may throw; whether a call goes through
  is an input \<open>ok\<close> of the model, so that the \<^verbatim>\<open>catch\<close> branch of every handler is a
  branch of the model.
\<close>

definition in_flipbook :: "flipbook_id \<Rightarrow> drawing \<Rightarrow> bool" where
  "in_flipbook fid d = (flipbookId d = fid)"

definition matches :: "flipbook_id \<Rightarrow> frame_index \<Rightarrow> drawing \<Rightarrow> bool" where
  "matches fid idx d = (flipbookId d = fid \<and> frameIndex d = idx)"

definition frame_key :: "drawing \<Rightarrow> flipbook_id \<times> frame_index" where
  "frame_key d = (flipbookId d, frameIndex d)"

text \<open>\<^verbatim>\<open>Drawing.find({ flipbookId }).sort({ frameIndex: 1 }).exec()\<close>\<close>

definition Drawing_find_sort :: "bool \<Rightarrow> flipbook_id \<Rightarrow> drawing list \<Rightarrow> store_error + drawing list" where
  "Drawing_find_sort ok fid ds =
     (if ok then Inr (sort_key frameIndex (filter (in_flipbook fid) ds)) else Inl StoreFailure)"

text \<open>\<^verbatim>\<open>Drawing.findOne(filter)\<close>: the first matching document, or \<^verbatim>\<open>null\<close>.\<close>

definition Drawing_findOne :: "bool \<Rightarrow> (drawing \<Rightarrow> bool) \<Rightarrow> drawing list \<Rightarrow> store_error + drawing option" where
  "Drawing_findOne ok P ds = (if ok then Inr (List.find P ds) else Inl StoreFailure)"

fun update_first :: "(drawing \<Rightarrow> bool) \<Rightarrow> drawing \<Rightarrow> drawing list \<Rightarrow> drawing list" where
  "update_first P d' [] = []"
| "update_first P d' (d # ds) = (if P d then d' # ds else d # update_first P d' ds)"

text \<open>
  \<^verbatim>\<open>Drawing.findOneAndUpdate({ flipbookId, frameIndex }, { drawingData, createdBy,
  updatedAt }, { upsert: true, new: true })\<close>. A matching document has the three fields
  overwritten in place. Without a match a document is inserted: the filter's fields, the
  update's fields, and the schema default of \<open>createdAt\<close>, which is \<^verbatim>\<open>Date.now\<close> read at
  the insert (\<open>ins_at\<close>). The call returns the document as stored. The schema's
  \<^verbatim>\<open>required\<close> flags are validators of \<^verbatim>\<open>save\<close>; this call does not run them, so an
  absent key of the filter is matched and stored as absent.
\<close>

definition Drawing_findOneAndUpdate ::
  "bool \<Rightarrow> flipbook_id \<Rightarrow> frame_index \<Rightarrow> string \<Rightarrow> string \<Rightarrow> time \<Rightarrow> time \<Rightarrow> drawing list
     \<Rightarrow> store_error + (drawing \<times> drawing list)" where
  "Drawing_findOneAndUpdate ok fid idx data author upd_at ins_at ds =
     (if \<not> ok then Inl StoreFailure
      else case List.find (matches fid idx) ds of
        Some d \<Rightarrow>
          (let d' = d\<lparr>drawingData := data, createdBy := author, updatedAt := upd_at\<rparr>
           in Inr (d', update_first (matches fid idx) d' ds))
      | None \<Rightarrow>
          (let d' = \<lparr>flipbookId = fid, frameIndex = idx, drawingData = data,
                     createdAt = ins_at, updatedAt = upd_at, createdBy = author\<rparr>
           in Inr (d', ds @ [d'])))"

fun remove_first :: "(drawing \<Rightarrow> bool) \<Rightarrow> drawing list \<Rightarrow> drawing list" where
  "remove_first P [] = []"
| "remove_first P (d # ds) = (if P d then ds else d # remove_first P ds)"

text \<open>
  \<^verbatim>\<open>Drawing.findOneAndDelete({ flipbookId, frameIndex })\<close>: removes the first match and
  returns it, or returns \<^verbatim>\<open>null\<close> (no exception) when nothing matches.
\<close>

definition Drawing_findOneAndDelete ::
  "bool \<Rightarrow> flipbook_id \<Rightarrow> frame_index \<Rightarrow> drawing list \<Rightarrow> store_error + (drawing option \<times> drawing list)" where
  "Drawing_findOneAndDelete ok fid idx ds =
     (if ok then Inr (List.find (matches fid idx) ds, remove_first (matches fid idx) ds)
      else Inl StoreFailure)"

text \<open>\<^verbatim>\<open>Drawing.deleteMany({ flipbookId })\<close>: the result carries \<^verbatim>\<open>deletedCount\<close>.\<close>

definition Drawing_deleteMany :: "bool \<Rightarrow> flipbook_id \<Rightarrow> drawing list \<Rightarrow> store_error + (nat \<times> drawing list)" where
  "Drawing_deleteMany ok fid ds =
     (if ok then Inr (length (filter (in_flipbook fid) ds), filter (\<lambda>d. \<not> in_flipbook fid d) ds)
      else Inl StoreFailure)"

text \<open>
  \<^verbatim>\<open>Drawing.updateMany({ flipbookId }, { $set: { flipbookId: trimmedNewId } })\<close>. The
  documents are rewritten one at a time. The schema declares the index
  \<^verbatim>\<open>{ flipbookId: 1, frameIndex: 1 }\<close> unique, so a rewrite that would put a second
  document on an occupied key stops the call with a duplicate-key error; the documents
  rewritten before it stay rewritten. The successful result carries \<^verbatim>\<open>modifiedCount\<close>.
\<close>

fun updateMany_loop ::
  "flipbook_id \<Rightarrow> flipbook_id \<Rightarrow> drawing list \<Rightarrow> drawing list \<Rightarrow> nat \<Rightarrow> drawing list \<times> (store_error + nat)" where
  "updateMany_loop old new prev [] n = (prev, Inr n)"
| "updateMany_loop old new prev (d # rest) n =
     (if flipbookId d = old \<and> old \<noteq> new then
        (if list_ex (matches new (frameIndex d)) (prev @ rest)
         then (prev @ d # rest, Inl DuplicateKey)
         else updateMany_loop old new (prev @ [d\<lparr>flipbookId := new\<rparr>]) rest (Suc n))
      else updateMany_loop old new (prev @ [d]) rest n)"

definition Drawing_updateMany ::
  "bool \<Rightarrow> flipbook_id \<Rightarrow> flipbook_id \<Rightarrow> drawing list \<Rightarrow> drawing list \<times> (store_error + nat)" where
  "Drawing_updateMany ok old new ds =
     (if ok then updateMany_loop old new [] ds 0 else (ds, Inl StoreFailure))"

section \<open>Server state, emitted events, responses\<close>

text \<open>
  Room membership as the socket layer keeps it: for each room the set of sockets in it.
  \<^verbatim>\<open>socket.join\<close> and \<^verbatim>\<open>socket.leave\<close> add and remove one socket.
\<close>

record server =
  docs :: "drawing list"
  rooms :: "flipbook_id \<Rightarrow> sid set"

definition room_join :: "sid \<Rightarrow> flipbook_id \<Rightarrow> server \<Rightarrow> server" where
  "room_join sk fid s = s\<lparr>rooms := (rooms s)(fid := insert sk (rooms s fid))\<rparr>"

definition room_leave :: "sid \<Rightarrow> flipbook_id \<Rightarrow> server \<Rightarrow> server" where
  "room_leave sk fid s = s\<lparr>rooms := (rooms s)(fid := rooms s fid - {sk})\<rparr>"

datatype event =
    FlipbookState "drawing list"
  | DrawingUpdated flipbook_id frame_index string string time
  | DrawingSaved flipbook_id frame_index bool
  | DrawingError string
  | FrameDeleted flipbook_id frame_index
  | FlipbookDeleted flipbook_id
  | FlipbookRenamed flipbook_id flipbook_id

text \<open>
  The three ways the source addresses an event: \<^verbatim>\<open>socket.emit\<close> (the socket itself),
  \<^verbatim>\<open>io.to(room).emit\<close> (the whole room) and \<^verbatim>\<open>socket.to(room).emit\<close> (the room without
  the socket), each resolved as the socket library documents it.
\<close>

datatype target = ToSocket sid | ToRoom flipbook_id | ToRoomExcept flipbook_id sid

fun recipients :: "(flipbook_id \<Rightarrow> sid set) \<Rightarrow> target \<Rightarrow> sid set" where
  "recipients rs (ToSocket sk) = {sk}"
| "recipients rs (ToRoom fid) = rs fid"
| "recipients rs (ToRoomExcept fid sk) = rs fid - {sk}"

datatype store_op =
    OpFind flipbook_id
  | OpFindOne flipbook_id
  | OpFindFrame flipbook_id frame_index
  | OpFindOneAndUpdate flipbook_id frame_index
  | OpFindOneAndDelete flipbook_id frame_index
  | OpDeleteMany flipbook_id
  | OpUpdateMany flipbook_id flipbook_id

text \<open>What a handler does to the outside, in program order.\<close>

datatype effect =
    RoomJoin sid flipbook_id
  | RoomLeave sid flipbook_id
  | Store store_op
  | Emit target event
  | LogInfo string
  | LogError string

fun emitted :: "effect list \<Rightarrow> (target \<times> event) list" where
  "emitted [] = []"
| "emitted (Emit t e # es) = (t, e) # emitted es"
| "emitted (_ # es) = emitted es"

fun store_calls :: "effect list \<Rightarrow> store_op list" where
  "store_calls [] = []"
| "store_calls (Store c # es) = c # store_calls es"
| "store_calls (_ # es) = store_calls es"

datatype resp_body =
    JFrames "drawing list"
  | JFrame drawing
  | JError string
  | JMessage string
  | JDeleted string nat
  | JRenamed string string string nat

record response =
  status :: nat
  body :: resp_body

text \<open>JavaScript's \<^verbatim>\<open>a || b\<close> on an optional string: absent and empty are falsy.\<close>

definition js_or :: "string option \<Rightarrow> string \<Rightarrow> string" where
  "js_or a b = (case a of None \<Rightarrow> b | Some x \<Rightarrow> if x = [] then b else x)"

text \<open>
  \<^verbatim>\<open>String.prototype.trim\<close>: white space and line terminators are dropped at both
  ends (the characters of the Latin-1 range: tab, line feed, vertical tab, form feed,
  carriage return, space, no-break space).
\<close>

definition is_space :: "char \<Rightarrow> bool" where
  "is_space c = (c \<in> {CHR 0x09, CHR 0x0A, CHR 0x0B, CHR 0x0C, CHR 0x0D, CHR 0x20, CHR 0xA0})"

definition trim :: "string \<Rightarrow> string" where
  "trim s = rev (dropWhile is_space (rev (dropWhile is_space s)))"

section \<open>Socket handlers\<close>

text \<open>\<^verbatim>\<open>socket.on('join-flipbook')\<close>: join first, then fetch and send the snapshot.\<close>

definition join_flipbook :: "sid \<Rightarrow> bool \<Rightarrow> flipbook_id \<Rightarrow> server \<Rightarrow> server \<times> effect list" where
  "join_flipbook sk ok fid s =
     (let s' = room_join sk fid s in
      case Drawing_find_sort ok fid (docs s') of
        Inr drawings \<Rightarrow>
          (s', [RoomJoin sk fid, LogInfo ''joined flipbook'', Store (OpFind fid),
                Emit (ToSocket sk) (FlipbookState drawings)])
      | Inl err \<Rightarrow>
          (s', [RoomJoin sk fid, LogInfo ''joined flipbook'', Store (OpFind fid),
                LogError ''Error sending flipbook state:'']))"

text \<open>\<^verbatim>\<open>socket.on('leave-flipbook')\<close>\<close>

definition leave_flipbook :: "sid \<Rightarrow> flipbook_id \<Rightarrow> server \<Rightarrow> server \<times> effect list" where
  "leave_flipbook sk fid s = (room_leave sk fid s, [RoomLeave sk fid, LogInfo ''left flipbook''])"

text \<open>
  \<^verbatim>\<open>socket.on('disconnect')\<close>: the handler only logs; the socket layer has taken the
  socket out of every room.
\<close>

definition disconnect :: "sid \<Rightarrow> server \<Rightarrow> server \<times> effect list" where
  "disconnect sk s = (s\<lparr>rooms := (\<lambda>fid. rooms s fid - {sk})\<rparr>, [LogInfo ''Client disconnected''])"

text \<open>
  The payload of \<^verbatim>\<open>drawing-update\<close>. The handler destructures it inside its \<^verbatim>\<open>try\<close>:
  a payload that is \<^verbatim>\<open>null\<close> or \<^verbatim>\<open>undefined\<close> (\<open>None\<close> below) throws there, any other
  value yields the four fields, each possibly absent.
\<close>

record drawing_update =
  du_flipbookId :: flipbook_id
  du_frameIndex :: frame_index
  du_drawingData :: string
  du_createdBy :: "string option"

text \<open>
  \<^verbatim>\<open>socket.on('drawing-update')\<close>. \<open>now\<close> is the handler's \<^verbatim>\<open>Date.now()\<close>, \<open>ins_at\<close>
  the clock as the store reads it for the defaults of an inserted document.
\<close>

definition drawing_update_handler ::
  "sid \<Rightarrow> bool \<Rightarrow> time \<Rightarrow> time \<Rightarrow> drawing_update option \<Rightarrow> server \<Rightarrow> server \<times> effect list" where
  "drawing_update_handler sk ok now ins_at payload s =
     (case payload of
        None \<Rightarrow>
          (s, [LogError ''Error handling drawing update:'',
               Emit (ToSocket sk) (DrawingError ''Failed to save drawing'')])
      | Some p \<Rightarrow>
          (let fid = du_flipbookId p; idx = du_frameIndex p in
           case Drawing_findOneAndUpdate ok fid idx (du_drawingData p)
                  (js_or (du_createdBy p) sk) now ins_at (docs s) of
             Inr (d, ds') \<Rightarrow>
               (s\<lparr>docs := ds'\<rparr>,
                [Store (OpFindOneAndUpdate fid idx),
                 Emit (ToRoomExcept fid sk)
                   (DrawingUpdated fid idx (du_drawingData p) (createdBy d) (updatedAt d)),
                 Emit (ToSocket sk) (DrawingSaved fid idx True)])
           | Inl err \<Rightarrow>
               (s, [Store (OpFindOneAndUpdate fid idx),
                    LogError ''Error handling drawing update:'',
                    Emit (ToSocket sk) (DrawingError ''Failed to save drawing'')])))"

record frame_delete =
  fd_flipbookId :: flipbook_id
  fd_frameIndex :: frame_index

text \<open>\<^verbatim>\<open>socket.on('frame-delete')\<close>\<close>

definition frame_delete_handler ::
  "sid \<Rightarrow> bool \<Rightarrow> frame_delete option \<Rightarrow> server \<Rightarrow> server \<times> effect list" where
  "frame_delete_handler sk ok payload s =
     (case payload of
        None \<Rightarrow>
          (s, [LogError ''Error handling frame deletion:'',
               Emit (ToSocket sk) (DrawingError ''Failed to delete frame'')])
      | Some p \<Rightarrow>
          (let fid = fd_flipbookId p; idx = fd_frameIndex p in
           case Drawing_findOneAndDelete ok fid idx (docs s) of
             Inr (found, ds') \<Rightarrow>
               (s\<lparr>docs := ds'\<rparr>,
                [Store (OpFindOneAndDelete fid idx),
                 Emit (ToRoom fid) (FrameDeleted fid idx)])
           | Inl err \<Rightarrow>
               (s, [Store (OpFindOneAndDelete fid idx),
                    LogError ''Error handling frame deletion:'',
                    Emit (ToSocket sk) (DrawingError ''Failed to delete frame'')])))"

section \<open>REST handlers\<close>

text \<open>
  The route parameter \<^verbatim>\<open>:flipbookId\<close> is a non-empty string. \<^verbatim>\<open>:frameIndex\<close> goes
  through \<^verbatim>\<open>parseInt\<close>; \<open>idx\<close> below is the integer it yields (when it yields
  \<^verbatim>\<open>NaN\<close> the query throws on the cast, which is the branch \<open>ok = False\<close>).
\<close>

text \<open>\<^verbatim>\<open>GET /api/flipbook/:flipbookId/frames\<close>\<close>

definition get_frames :: "bool \<Rightarrow> string \<Rightarrow> server \<Rightarrow> effect list \<times> response" where
  "get_frames ok fid s =
     (case Drawing_find_sort ok (Some fid) (docs s) of
        Inr drawings \<Rightarrow> ([Store (OpFind (Some fid))], \<lparr>status = 200, body = JFrames drawings\<rparr>)
      | Inl err \<Rightarrow>
          ([Store (OpFind (Some fid)), LogError ''Error fetching frames:''],
           \<lparr>status = 500, body = JError ''Failed to fetch frames''\<rparr>))"

text \<open>\<^verbatim>\<open>GET /api/flipbook/:flipbookId/frame/:frameIndex\<close>\<close>

definition get_frame :: "bool \<Rightarrow> string \<Rightarrow> int \<Rightarrow> server \<Rightarrow> effect list \<times> response" where
  "get_frame ok fid idx s =
     (case Drawing_findOne ok (matches (Some fid) (Some idx)) (docs s) of
        Inr None \<Rightarrow>
          ([Store (OpFindFrame (Some fid) (Some idx))],
           \<lparr>status = 404, body = JError ''Frame not found''\<rparr>)
      | Inr (Some d) \<Rightarrow>
          ([Store (OpFindFrame (Some fid) (Some idx))], \<lparr>status = 200, body = JFrame d\<rparr>)
      | Inl err \<Rightarrow>
          ([Store (OpFindFrame (Some fid) (Some idx)), LogError ''Error fetching frame:''],
           \<lparr>status = 500, body = JError ''Failed to fetch frame''\<rparr>))"

text \<open>\<^verbatim>\<open>POST /api/flipbook/:flipbookId/frame/:frameIndex\<close>\<close>

definition save_frame ::
  "bool \<Rightarrow> time \<Rightarrow> time \<Rightarrow> string \<Rightarrow> int \<Rightarrow> string \<Rightarrow> string option \<Rightarrow> server
     \<Rightarrow> server \<times> effect list \<times> response" where
  "save_frame ok now ins_at fid idx data author s =
     (case Drawing_findOneAndUpdate ok (Some fid) (Some idx) data
             (js_or author ''anonymous'') now ins_at (docs s) of
        Inr (d, ds') \<Rightarrow>
          (s\<lparr>docs := ds'\<rparr>, [Store (OpFindOneAndUpdate (Some fid) (Some idx))],
           \<lparr>status = 200, body = JFrame d\<rparr>)
      | Inl err \<Rightarrow>
          (s, [Store (OpFindOneAndUpdate (Some fid) (Some idx)), LogError ''Error saving frame:''],
           \<lparr>status = 500, body = JError ''Failed to save frame''\<rparr>))"

text \<open>\<^verbatim>\<open>DELETE /api/flipbook/:flipbookId/frame/:frameIndex\<close>\<close>

definition delete_frame :: "bool \<Rightarrow> string \<Rightarrow> int \<Rightarrow> server \<Rightarrow> server \<times> effect list \<times> response" where
  "delete_frame ok fid idx s =
     (case Drawing_findOneAndDelete ok (Some fid) (Some idx) (docs s) of
        Inr (found, ds') \<Rightarrow>
          (s\<lparr>docs := ds'\<rparr>, [Store (OpFindOneAndDelete (Some fid) (Some idx))],
           \<lparr>status = 200, body = JMessage ''Frame deleted successfully''\<rparr>)
      | Inl err \<Rightarrow>
          (s, [Store (OpFindOneAndDelete (Some fid) (Some idx)), LogError ''Error deleting frame:''],
           \<lparr>status = 500, body = JError ''Failed to delete frame''\<rparr>))"

text \<open>\<^verbatim>\<open>DELETE /api/flipbook/:flipbookId\<close>\<close>

definition delete_flipbook :: "bool \<Rightarrow> string \<Rightarrow> server \<Rightarrow> server \<times> effect list \<times> response" where
  "delete_flipbook ok fid s =
     (case Drawing_deleteMany ok (Some fid) (docs s) of
        Inr (n, ds') \<Rightarrow>
          (s\<lparr>docs := ds'\<rparr>,
           [Store (OpDeleteMany (Some fid)), Emit (ToRoom (Some fid)) (FlipbookDeleted (Some fid))],
           \<lparr>status = 200, body = JDeleted ''Flipbook deleted successfully'' n\<rparr>)
      | Inl err \<Rightarrow>
          (s, [Store (OpDeleteMany (Some fid)), LogError ''Error deleting flipbook:''],
           \<lparr>status = 500, body = JError ''Failed to delete flipbook''\<rparr>))"

text \<open>
  \<^verbatim>\<open>PUT /api/flipbook/:flipbookId/rename\<close>. \<open>newFlipbookId\<close> is the field of the request
  body (absent, or a string). \<open>ok1\<close> is the outcome of the \<^verbatim>\<open>findOne\<close> call, \<open>ok2\<close>
  that of \<^verbatim>\<open>updateMany\<close>.
\<close>

definition rename_flipbook ::
  "bool \<Rightarrow> bool \<Rightarrow> string \<Rightarrow> string option \<Rightarrow> server \<Rightarrow> server \<times> effect list \<times> response" where
  "rename_flipbook ok1 ok2 fid newFlipbookId s =
     (case newFlipbookId of
        None \<Rightarrow> (s, [], \<lparr>status = 400, body = JError ''New flipbook ID is required''\<rparr>)
      | Some new \<Rightarrow>
          if new = [] \<or> trim new = []
          then (s, [], \<lparr>status = 400, body = JError ''New flipbook ID is required''\<rparr>)
          else
            (let trimmedNewId = trim new in
             case Drawing_findOne ok1 (in_flipbook (Some trimmedNewId)) (docs s) of
               Inl err \<Rightarrow>
                 (s, [Store (OpFindOne (Some trimmedNewId)), LogError ''Error renaming flipbook:''],
                  \<lparr>status = 500, body = JError ''Failed to rename flipbook''\<rparr>)
             | Inr (Some existing) \<Rightarrow>
                 (s, [Store (OpFindOne (Some trimmedNewId))],
                  \<lparr>status = 400, body = JError ''A flipbook with this name already exists''\<rparr>)
             | Inr None \<Rightarrow>
                 (case Drawing_updateMany ok2 (Some fid) (Some trimmedNewId) (docs s) of
                    (ds', Inr n) \<Rightarrow>
                      (s\<lparr>docs := ds'\<rparr>,
                       [Store (OpFindOne (Some trimmedNewId)),
                        Store (OpUpdateMany (Some fid) (Some trimmedNewId)),
                        Emit (ToRoom (Some fid)) (FlipbookRenamed (Some fid) (Some trimmedNewId))],
                       \<lparr>status = 200,
                        body = JRenamed ''Flipbook renamed successfully'' fid trimmedNewId n\<rparr>)
                  | (ds', Inl err) \<Rightarrow>
                      (s\<lparr>docs := ds'\<rparr>,
                       [Store (OpFindOne (Some trimmedNewId)),
                        Store (OpUpdateMany (Some fid) (Some trimmedNewId)),
                        LogError ''Error renaming flipbook:''],
                       \<lparr>status = 500, body = JError ''Failed to rename flipbook''\<rparr>))))"

section \<open>Runs of the server\<close>

text \<open>
  The requests that change the server's state, each with what the environment decides
  for it (outcome of the store calls, clock readings). The remaining routes and
  \<^verbatim>\<open>cursor-move\<close> change neither the collection nor the rooms.
\<close>

datatype request =
    JoinFlipbook sid bool flipbook_id
  | LeaveFlipbook sid flipbook_id
  | Disconnect sid
  | DrawingUpdate sid bool time time "drawing_update option"
  | FrameDelete sid bool "frame_delete option"
  | SaveFrame bool time time string int string "string option"
  | DeleteFrame bool string int
  | DeleteFlipbook bool string
  | RenameFlipbook bool bool string "string option"

fun step :: "request \<Rightarrow> server \<Rightarrow> server" where
  "step (JoinFlipbook sk ok fid) s = fst (join_flipbook sk ok fid s)"
| "step (LeaveFlipbook sk fid) s = fst (leave_flipbook sk fid s)"
| "step (Disconnect sk) s = fst (disconnect sk s)"
| "step (DrawingUpdate sk ok now ins_at p) s = fst (drawing_update_handler sk ok now ins_at p s)"
| "step (FrameDelete sk ok p) s = fst (frame_delete_handler sk ok p s)"
| "step (SaveFrame ok now ins_at fid idx data author) s =
     fst (save_frame ok now ins_at fid idx data author s)"
| "step (DeleteFrame ok fid idx) s = fst (delete_frame ok fid idx s)"
| "step (DeleteFlipbook ok fid) s = fst (delete_flipbook ok fid s)"
| "step (RenameFlipbook ok1 ok2 fid new) s = fst (rename_flipbook ok1 ok2 fid new s)"

fun run :: "request list \<Rightarrow> server \<Rightarrow> server" where
  "run [] s = s"
| "run (r # rs) s = run rs (step r s)"

definition initial :: server where
  "initial = \<lparr>docs = [], rooms = (\<lambda>fid. {})\<rparr>"

text \<open>The unique index of the schema, as a property of the collection.\<close>

definition unique_frames :: "drawing list \<Rightarrow> bool" where
  "unique_frames ds = distinct (map frame_key ds)"

section \<open>Derived notions\<close>

text \<open>
  The events a connection \<open>c\<close> receives from a handler's effects, in order: those
  whose target resolves, against the room membership, to a set containing \<open>c\<close>.
\<close>

definition delivered :: "(flipbook_id \<Rightarrow> sid set) \<Rightarrow> effect list \<Rightarrow> sid \<Rightarrow> event list" where
  "delivered rs effs c = map snd (filter (\<lambda>te. c \<in> recipients rs (fst te)) (emitted effs))"

text \<open>
  What \<^verbatim>\<open>updateMany\<close> of the rename does to one document, and the document an upsert
  through \<^verbatim>\<open>POST .../frame/:frameIndex\<close> inserts when the key is free.
\<close>

definition rename_doc :: "flipbook_id \<Rightarrow> flipbook_id \<Rightarrow> drawing \<Rightarrow> drawing" where
  "rename_doc old new d = (if flipbookId d = old then d\<lparr>flipbookId := new\<rparr> else d)"

definition fresh_frame :: "string \<Rightarrow> int \<Rightarrow> string \<Rightarrow> string option \<Rightarrow> time \<Rightarrow> time \<Rightarrow> drawing" where
  "fresh_frame fid idx data author now ins_at =
     \<lparr>flipbookId = Some fid, frameIndex = Some idx, drawingData = data,
      createdAt = ins_at, updatedAt = now, createdBy = js_or author ''anonymous''\<rparr>"

subsection \<open>Sample states\<close>

definition frame :: "string \<Rightarrow> int \<Rightarrow> string \<Rightarrow> time \<Rightarrow> drawing" where
  "frame fid idx data t =
     \<lparr>flipbookId = Some fid, frameIndex = Some idx, drawingData = data,
      createdAt = t, updatedAt = t, createdBy = ''alice''\<rparr>"

definition two_in_cat :: server where
  "two_in_cat = \<lparr>docs = [frame ''cat'' 0 ''X'' 1], rooms = (\<lambda>fid. {})(Some ''cat'' := {''A'', ''B''})\<rparr>"

definition spaced_dog :: server where
  "spaced_dog = \<lparr>docs = [frame ''cat'' 0 ''X'' 1, frame '' dog'' 0 ''Y'' 2],
                  rooms = (\<lambda>fid. {})(Some ''cat'' := {''A'', ''B''})\<rparr>"

definition three_saves :: "request list" where
  "three_saves = [SaveFrame True 5 5 ''cat'' 2 ''B'' None, SaveFrame True 6 6 ''cat'' 0 ''A'' None,
                  SaveFrame True 7 7 ''cat'' 2 ''C'' None]"

definition cat_update :: drawing_update where
  "cat_update = \<lparr>du_flipbookId = Some ''cat'', du_frameIndex = Some 0, du_drawingData = ''Z'',
                  du_createdBy = Some ''alice''\<rparr>"

definition no_id_update :: drawing_update where
  "no_id_update = \<lparr>du_flipbookId = None, du_frameIndex = Some 0, du_drawingData = ''X'',
                    du_createdBy = None\<rparr>"

section \<open>Facts about the collection\<close>

lemma find_matches_None: "List.find (matches fid idx) ds = None \<longleftrightarrow> (fid, idx) \<notin> set (map frame_key ds)"
  by (induction ds) (auto simp: matches_def frame_key_def)

lemma find_matches_Some: "List.find (matches fid idx) ds = Some d \<Longrightarrow> frame_key d = (fid, idx) \<and> d \<in> set ds"
  by (induction ds) (auto simp: matches_def frame_key_def split: if_splits)

lemma list_ex_matches: "list_ex (matches fid idx) ds \<longleftrightarrow> (fid, idx) \<in> set (map frame_key ds)"
  by (induction ds) (auto simp: matches_def frame_key_def)

lemma list_ex_find: "list_ex P ds \<Longrightarrow> \<exists>d. List.find P ds = Some d"
  by (induction ds) auto

lemma find_append_new:
  "List.find P ds = None \<Longrightarrow> P d \<Longrightarrow> List.find P (ds @ [d]) = Some d"
  by (induction ds) (auto split: if_splits)

lemma update_first_keys:
  "frame_key d' = (fid, idx) \<Longrightarrow> map frame_key (update_first (matches fid idx) d' ds) = map frame_key ds"
  by (induction ds) (auto simp: matches_def frame_key_def)

lemma remove_first_subset: "set (map frame_key (remove_first P ds)) \<subseteq> set (map frame_key ds)"
  by (induction ds) auto

lemma findOneAndUpdate_result:
  "Drawing_findOneAndUpdate True fid idx data author upd_at ins_at ds = Inr (d, ds') \<Longrightarrow>
     createdBy d = author \<and> updatedAt d = upd_at \<and> drawingData d = data"
  by (auto simp: Drawing_findOneAndUpdate_def Let_def split: option.splits)

lemma findOneAndUpdate_ok:
  "\<exists>d ds'. Drawing_findOneAndUpdate True fid idx data author upd_at ins_at ds = Inr (d, ds')"
  by (auto simp: Drawing_findOneAndUpdate_def Let_def split: option.splits)

subsection \<open>The unique index is an invariant\<close>

lemma unique_remove_first: "unique_frames ds \<Longrightarrow> unique_frames (remove_first P ds)"
  unfolding unique_frames_def
proof (induction ds)
  case Nil
  then show ?case by simp
next
  case (Cons d ds)
  then show ?case using remove_first_subset [of P ds] by auto
qed

lemma find_after_remove_first:
  "unique_frames ds \<Longrightarrow> List.find (matches fid idx) (remove_first (matches fid idx) ds) = None"
  unfolding unique_frames_def
proof (induction ds)
  case Nil
  then show ?case by simp
next
  case (Cons d ds)
  show ?case
  proof (cases "matches fid idx d")
    case True
    then have "frame_key d = (fid, idx)" by (simp add: matches_def frame_key_def)
    with Cons.prems have "(fid, idx) \<notin> set (map frame_key ds)" by auto
    with True show ?thesis by (simp add: find_matches_None)
  next
    case False
    with Cons show ?thesis by simp
  qed
qed

lemma unique_findOneAndUpdate:
  assumes "unique_frames ds"
    and "Drawing_findOneAndUpdate ok fid idx data author upd_at ins_at ds = Inr (d, ds')"
  shows "unique_frames ds'"
proof (cases "List.find (matches fid idx) ds")
  case None
  then have "(fid, idx) \<notin> set (map frame_key ds)" by (simp add: find_matches_None)
  with assms None show ?thesis
    by (auto simp: Drawing_findOneAndUpdate_def unique_frames_def frame_key_def Let_def split: if_splits)
next
  case (Some d0)
  then have k: "frame_key (d0\<lparr>drawingData := data, createdBy := author, updatedAt := upd_at\<rparr>) = (fid, idx)"
    using find_matches_Some [OF Some] by (simp add: frame_key_def)
  from assms Some show ?thesis
    by (auto simp: Drawing_findOneAndUpdate_def unique_frames_def Let_def update_first_keys [OF k]
          split: if_splits)
qed

lemma unique_findOneAndDelete:
  "unique_frames ds \<Longrightarrow> Drawing_findOneAndDelete ok fid idx ds = Inr (found, ds') \<Longrightarrow> unique_frames ds'"
  by (auto simp: Drawing_findOneAndDelete_def unique_remove_first split: if_splits)

lemma unique_deleteMany:
  "unique_frames ds \<Longrightarrow> Drawing_deleteMany ok fid ds = Inr (n, ds') \<Longrightarrow> unique_frames ds'"
  by (auto simp: Drawing_deleteMany_def unique_frames_def distinct_map_filter split: if_splits)

lemma unique_updateMany_loop:
  "unique_frames (prev @ todo) \<Longrightarrow> unique_frames (fst (updateMany_loop old new prev todo n))"
proof (induction todo arbitrary: prev n)
  case Nil
  then show ?case by simp
next
  case (Cons d rest)
  show ?case
  proof (cases "flipbookId d = old \<and> old \<noteq> new")
    case False
    with Cons.IH [of "prev @ [d]" n] Cons.prems show ?thesis by auto
  next
    case True
    show ?thesis
    proof (cases "list_ex (matches new (frameIndex d)) (prev @ rest)")
      case True
      with \<open>flipbookId d = old \<and> old \<noteq> new\<close> Cons.prems show ?thesis by simp
    next
      case False
      then have "(new, frameIndex d) \<notin> set (map frame_key (prev @ rest))"
        by (simp add: list_ex_matches)
      with Cons.prems have "unique_frames ((prev @ [d\<lparr>flipbookId := new\<rparr>]) @ rest)"
        by (auto simp: unique_frames_def frame_key_def)
      from Cons.IH [OF this, of "Suc n"] True False show ?thesis by simp
    qed
  qed
qed

lemma unique_updateMany:
  "unique_frames ds \<Longrightarrow> Drawing_updateMany ok old new ds = (ds', r) \<Longrightarrow> unique_frames ds'"
  using unique_updateMany_loop [of "[]" ds old new 0] by (auto simp: Drawing_updateMany_def split: if_splits)

lemma unique_step: "unique_frames (docs s) \<Longrightarrow> unique_frames (docs (step r s))"
proof (cases r)
  case (JoinFlipbook sk ok fid)
  assume "unique_frames (docs s)"
  with JoinFlipbook show ?thesis
    by (simp add: join_flipbook_def room_join_def Let_def Drawing_find_sort_def)
next
  case (LeaveFlipbook sk fid)
  assume "unique_frames (docs s)"
  with LeaveFlipbook show ?thesis by (simp add: leave_flipbook_def room_leave_def)
next
  case (Disconnect sk)
  assume "unique_frames (docs s)"
  with Disconnect show ?thesis by (simp add: disconnect_def)
next
  case (DrawingUpdate sk ok now ins_at p)
  assume "unique_frames (docs s)"
  with DrawingUpdate show ?thesis
    by (auto simp: drawing_update_handler_def Let_def dest: unique_findOneAndUpdate
          split: option.splits sum.splits)
next
  case (FrameDelete sk ok p)
  assume "unique_frames (docs s)"
  with FrameDelete show ?thesis
    by (auto simp: frame_delete_handler_def Let_def dest: unique_findOneAndDelete
          split: option.splits sum.splits)
next
  case (SaveFrame ok now ins_at fid idx data author)
  assume "unique_frames (docs s)"
  with SaveFrame show ?thesis
    by (auto simp: save_frame_def dest: unique_findOneAndUpdate split: sum.splits)
next
  case (DeleteFrame ok fid idx)
  assume "unique_frames (docs s)"
  with DeleteFrame show ?thesis
    by (auto simp: delete_frame_def dest: unique_findOneAndDelete split: sum.splits)
next
  case (DeleteFlipbook ok fid)
  assume "unique_frames (docs s)"
  with DeleteFlipbook show ?thesis
    by (auto simp: delete_flipbook_def dest: unique_deleteMany split: sum.splits)
next
  case (RenameFlipbook ok1 ok2 fid new)
  assume u: "unique_frames (docs s)"
  have "unique_frames (docs (fst (rename_flipbook ok1 ok2 fid new s)))"
    using u
    by (auto simp: rename_flipbook_def Let_def dest: unique_updateMany
          split: option.splits sum.splits prod.splits)
  with RenameFlipbook show ?thesis by simp
qed

lemma unique_run: "unique_frames (docs s) \<Longrightarrow> unique_frames (docs (run rs s))"
  by (induction rs arbitrary: s) (auto simp: unique_step)

subsection \<open>Sorting and renaming\<close>

lemma insort_key_map_same:
  "(\<And>x. f (g x) = f x) \<Longrightarrow> insort_key f (g x) (map g xs) = map g (insort_key f x xs)"
  by (induction xs) auto

lemma sort_key_map_same:
  "(\<And>x. f (g x) = f x) \<Longrightarrow> sort_key f (map g xs) = map g (sort_key f xs)"
  by (induction xs) (auto simp: insort_key_map_same)

lemma distinct_insort_key_map:
  "distinct (map f (insort_key f x xs)) \<longleftrightarrow> distinct (map f (x # xs))"
  by (induction xs) (auto simp: set_insort_key)

lemma distinct_sort_key_map: "distinct (map f (sort_key f xs)) \<longleftrightarrow> distinct (map f xs)"
  by (induction xs) (auto simp: distinct_insort_key_map)

lemma distinct_index_in_flipbook:
  "unique_frames ds \<Longrightarrow> distinct (map frameIndex (filter (in_flipbook fid) ds))"
  unfolding unique_frames_def
  by (induction ds) (auto simp: in_flipbook_def frame_key_def image_iff)

lemma rename_doc_key_inj:
  assumes "\<forall>d \<in> set ds. flipbookId d \<noteq> new" and "unique_frames ds"
  shows "unique_frames (map (rename_doc old new) ds)"
proof -
  have inj: "inj_on (frame_key \<circ> rename_doc old new) (set ds)"
  proof (rule inj_onI)
    fix a b
    assume a: "a \<in> set ds" and b: "b \<in> set ds"
      and eq: "(frame_key \<circ> rename_doc old new) a = (frame_key \<circ> rename_doc old new) b"
    from assms(1) a b have "flipbookId a \<noteq> new" "flipbookId b \<noteq> new" by auto
    with eq have "frame_key a = frame_key b"
      by (auto simp: rename_doc_def frame_key_def split: if_splits)
    moreover from assms(2) have "inj_on frame_key (set ds)"
      by (simp add: unique_frames_def distinct_map)
    ultimately show "a = b" using a b by (auto dest: inj_onD)
  qed
  from assms(2) have "distinct ds" by (simp add: unique_frames_def distinct_map)
  with inj show ?thesis by (simp add: unique_frames_def distinct_map)
qed

lemma updateMany_loop_renames:
  assumes "\<forall>d \<in> set todo. flipbookId d \<noteq> new"
    and "unique_frames (prev @ map (rename_doc old new) todo)"
  shows "updateMany_loop old new prev todo n =
           (prev @ map (rename_doc old new) todo, Inr (n + length (filter (in_flipbook old) todo)))"
  using assms
proof (induction todo arbitrary: prev n)
  case Nil
  then show ?case by simp
next
  case (Cons d rest)
  show ?case
  proof (cases "flipbookId d = old \<and> old \<noteq> new")
    case True
    then have rd: "rename_doc old new d = d\<lparr>flipbookId := new\<rparr>" by (simp add: rename_doc_def)
    from Cons.prems(2) rd have "(new, frameIndex d) \<notin> set (map frame_key prev)"
      by (auto simp: unique_frames_def frame_key_def)
    moreover from Cons.prems(1) have "(new, frameIndex d) \<notin> set (map frame_key rest)"
      by (auto simp: frame_key_def)
    ultimately have nc: "\<not> list_ex (matches new (frameIndex d)) (prev @ rest)"
      by (simp add: list_ex_matches)
    have unf: "updateMany_loop old new prev (d # rest) n =
        updateMany_loop old new (prev @ [d\<lparr>flipbookId := new\<rparr>]) rest (Suc n)"
      using True nc by simp
    from Cons.prems(1) have r1: "\<forall>d \<in> set rest. flipbookId d \<noteq> new" by simp
    from Cons.prems(2) rd
    have r2: "unique_frames ((prev @ [d\<lparr>flipbookId := new\<rparr>]) @ map (rename_doc old new) rest)"
      by simp
    have i: "in_flipbook old d" using True by (simp add: in_flipbook_def)
    show ?thesis
      unfolding unf Cons.IH [OF r1 r2, of "Suc n"] using rd i by simp
  next
    case False
    with Cons.prems(1) have rd: "rename_doc old new d = d" and nf: "\<not> in_flipbook old d"
      by (auto simp: rename_doc_def in_flipbook_def)
    have unf: "updateMany_loop old new prev (d # rest) n = updateMany_loop old new (prev @ [d]) rest n"
      by (simp only: updateMany_loop.simps False if_False)
    from Cons.prems(1) have r1: "\<forall>d \<in> set rest. flipbookId d \<noteq> new" by simp
    from Cons.prems(2) rd have r2: "unique_frames ((prev @ [d]) @ map (rename_doc old new) rest)"
      by simp
    show ?thesis
      unfolding unf Cons.IH [OF r1 r2, of n] using rd nf by simp
  qed
qed

lemma filter_new_after_rename:
  "\<forall>d \<in> set ds. flipbookId d \<noteq> new \<Longrightarrow>
     filter (in_flipbook new) (map (rename_doc old new) ds)
       = map (\<lambda>d. d\<lparr>flipbookId := new\<rparr>) (filter (in_flipbook old) ds)"
  by (induction ds) (auto simp: rename_doc_def in_flipbook_def)

lemma filter_old_after_rename:
  "\<forall>d \<in> set ds. flipbookId d \<noteq> new \<Longrightarrow> filter (in_flipbook old) (map (rename_doc old new) ds) = []"
  by (induction ds) (auto simp: rename_doc_def in_flipbook_def)

lemma not_list_ex_in_flipbook:
  "\<not> list_ex (in_flipbook new) ds \<Longrightarrow> (\<forall>d \<in> set ds. flipbookId d \<noteq> new) \<and> List.find (in_flipbook new) ds = None"
  by (induction ds) (auto simp: in_flipbook_def)

lemma trim_nonempty: "trim new \<noteq> [] \<Longrightarrow> new \<noteq> []"
  by (auto simp: trim_def)

section \<open>The claims\<close>

subsection \<open>C1: events of a drawing update\<close>

text \<open>
  C1. A \<^verbatim>\<open>drawing-update\<close> carrying its fields, sent by socket \<open>sk\<close>. When the upsert
  goes through, the sender receives \<^verbatim>\<open>drawing-saved\<close> with \<^verbatim>\<open>success: true\<close> and nothing
  else, every other member of the flipbook's room receives \<^verbatim>\<open>drawing-updated\<close>, and
  nobody else receives anything. When the upsert throws, the only event emitted is one
  \<^verbatim>\<open>drawing-error\<close> to the sender.
\<close>

theorem drawing_update_events:
  "delivered (rooms s) (snd (drawing_update_handler sk True now ins_at (Some p) s)) c =
     (if c = sk then [DrawingSaved (du_flipbookId p) (du_frameIndex p) True]
      else if c \<in> rooms s (du_flipbookId p)
      then [DrawingUpdated (du_flipbookId p) (du_frameIndex p) (du_drawingData p)
              (js_or (du_createdBy p) sk) now]
      else [])
   \<and> delivered (rooms s) (snd (drawing_update_handler sk False now ins_at (Some p) s)) c =
     (if c = sk then [DrawingError ''Failed to save drawing''] else [])
   \<and> emitted (snd (drawing_update_handler sk False now ins_at (Some p) s)) =
     [(ToSocket sk, DrawingError ''Failed to save drawing'')]"
proof -
  obtain d ds' where r: "Drawing_findOneAndUpdate True (du_flipbookId p) (du_frameIndex p)
      (du_drawingData p) (js_or (du_createdBy p) sk) now ins_at (docs s) = Inr (d, ds')"
    using findOneAndUpdate_ok by blast
  note f = findOneAndUpdate_result [OF r]
  have good: "delivered (rooms s) (snd (drawing_update_handler sk True now ins_at (Some p) s)) c =
     (if c = sk then [DrawingSaved (du_flipbookId p) (du_frameIndex p) True]
      else if c \<in> rooms s (du_flipbookId p)
      then [DrawingUpdated (du_flipbookId p) (du_frameIndex p) (du_drawingData p)
              (js_or (du_createdBy p) sk) now]
      else [])"
    using r f by (simp add: drawing_update_handler_def delivered_def Let_def)
  have bad: "emitted (snd (drawing_update_handler sk False now ins_at (Some p) s)) =
     [(ToSocket sk, DrawingError ''Failed to save drawing'')]"
    by (simp add: drawing_update_handler_def Let_def Drawing_findOneAndUpdate_def)
  have bad': "delivered (rooms s) (snd (drawing_update_handler sk False now ins_at (Some p) s)) c =
     (if c = sk then [DrawingError ''Failed to save drawing''] else [])"
    by (simp add: delivered_def bad)
  from good bad' bad show ?thesis by simp
qed

theorem drawing_update_events_witness:
  "delivered (rooms two_in_cat) (snd (drawing_update_handler ''A'' True 8 9 (Some cat_update) two_in_cat)) ''B''
     = [DrawingUpdated (Some ''cat'') (Some 0) ''Z'' ''alice'' 8]
   \<and> delivered (rooms two_in_cat) (snd (drawing_update_handler ''A'' True 8 9 (Some cat_update) two_in_cat)) ''A''
     = [DrawingSaved (Some ''cat'') (Some 0) True]
   \<and> delivered (rooms two_in_cat) (snd (drawing_update_handler ''A'' False 8 9 (Some cat_update) two_in_cat)) ''B''
     = []"
  using drawing_update_events [of two_in_cat "''A''" 8 9 cat_update "''B''"]
    drawing_update_events [of two_in_cat "''A''" 8 9 cat_update "''A''"]
  by (simp add: two_in_cat_def cat_update_def js_or_def)

subsection \<open>C2: missing fields of a drawing update\<close>

text \<open>
  The handler has no check of its payload's fields. A \<^verbatim>\<open>drawing-update\<close> without
  \<^verbatim>\<open>flipbookId\<close> goes to the store, a document without flipbook id is inserted, and the
  sender is told \<^verbatim>\<open>drawing-saved\<close>; no \<^verbatim>\<open>drawing-error\<close> is emitted.
\<close>

theorem missing_id_reaches_store:
  "store_calls (snd (drawing_update_handler ''A'' True 8 9 (Some no_id_update) two_in_cat))
     = [OpFindOneAndUpdate None (Some 0)]
   \<and> emitted (snd (drawing_update_handler ''A'' True 8 9 (Some no_id_update) two_in_cat))
     = [(ToRoomExcept None ''A'', DrawingUpdated None (Some 0) ''X'' ''A'' 8),
        (ToSocket ''A'', DrawingSaved None (Some 0) True)]
   \<and> docs (fst (drawing_update_handler ''A'' True 8 9 (Some no_id_update) two_in_cat))
     = [frame ''cat'' 0 ''X'' 1,
        \<lparr>flipbookId = None, frameIndex = Some 0, drawingData = ''X'', createdAt = 9,
         updatedAt = 8, createdBy = ''A''\<rparr>]"
  by (simp add: drawing_update_handler_def no_id_update_def two_in_cat_def frame_def
        Drawing_findOneAndUpdate_def matches_def js_or_def Let_def)

text \<open>
  C2, as the code has it. A \<^verbatim>\<open>drawing-update\<close> whose \<^verbatim>\<open>flipbookId\<close> or \<^verbatim>\<open>frameIndex\<close>
  is missing is not rejected: the first thing the handler does is the upsert, with the
  fields as received; \<^verbatim>\<open>drawing-error\<close> goes to the sender exactly when that call
  throws, and otherwise the events of a successful update are emitted. Only a payload
  that is \<^verbatim>\<open>null\<close> or \<^verbatim>\<open>undefined\<close> is rejected without a store call, with
  \<^verbatim>\<open>drawing-error\<close> to the sender.
\<close>

theorem drawing_update_unvalidated:
  assumes "du_flipbookId p = None \<or> du_frameIndex p = None"
  shows "hd (snd (drawing_update_handler sk ok now ins_at (Some p) s))
           = Store (OpFindOneAndUpdate (du_flipbookId p) (du_frameIndex p))
    \<and> store_calls (snd (drawing_update_handler sk ok now ins_at (Some p) s))
           = [OpFindOneAndUpdate (du_flipbookId p) (du_frameIndex p)]
    \<and> emitted (snd (drawing_update_handler sk ok now ins_at (Some p) s)) =
        (if ok
         then [(ToRoomExcept (du_flipbookId p) sk,
                DrawingUpdated (du_flipbookId p) (du_frameIndex p) (du_drawingData p)
                  (js_or (du_createdBy p) sk) now),
               (ToSocket sk, DrawingSaved (du_flipbookId p) (du_frameIndex p) True)]
         else [(ToSocket sk, DrawingError ''Failed to save drawing'')])
    \<and> store_calls (snd (drawing_update_handler sk ok now ins_at None s)) = []
    \<and> emitted (snd (drawing_update_handler sk ok now ins_at None s))
           = [(ToSocket sk, DrawingError ''Failed to save drawing'')]"
proof (cases ok)
  case True
  obtain d ds' where r: "Drawing_findOneAndUpdate True (du_flipbookId p) (du_frameIndex p)
      (du_drawingData p) (js_or (du_createdBy p) sk) now ins_at (docs s) = Inr (d, ds')"
    using findOneAndUpdate_ok by blast
  note f = findOneAndUpdate_result [OF r]
  from True r f show ?thesis by (simp add: drawing_update_handler_def Let_def)
next
  case False
  then show ?thesis by (simp add: drawing_update_handler_def Let_def Drawing_findOneAndUpdate_def)
qed

theorem drawing_update_unvalidated_witness:
  "(du_flipbookId no_id_update = None \<or> du_frameIndex no_id_update = None)
   \<and> store_calls (snd (drawing_update_handler ''A'' True 8 9 (Some no_id_update) two_in_cat))
       = [OpFindOneAndUpdate None (Some 0)]
   \<and> emitted (snd (drawing_update_handler ''A'' False 8 9 (Some no_id_update) two_in_cat))
       = [(ToSocket ''A'', DrawingError ''Failed to save drawing'')]"
proof -
  have h: "du_flipbookId no_id_update = None \<or> du_frameIndex no_id_update = None"
    by (simp add: no_id_update_def)
  from drawing_update_unvalidated [OF h, of "''A''" True 8 9 two_in_cat]
    drawing_update_unvalidated [OF h, of "''A''" False 8 9 two_in_cat] h
  show ?thesis by (simp add: no_id_update_def)
qed

subsection \<open>C3: events of a frame deletion\<close>

text \<open>
  C3. A \<^verbatim>\<open>frame-delete\<close> whose store call goes through: the handler deletes, then emits
  \<^verbatim>\<open>frame-deleted\<close> to the whole room of the flipbook. Every member receives it, the
  sender included when it is a member; no socket is excluded.
\<close>

theorem frame_delete_events:
  "snd (frame_delete_handler sk True (Some p) s) =
     [Store (OpFindOneAndDelete (fd_flipbookId p) (fd_frameIndex p)),
      Emit (ToRoom (fd_flipbookId p)) (FrameDeleted (fd_flipbookId p) (fd_frameIndex p))]
   \<and> delivered (rooms s) (snd (frame_delete_handler sk True (Some p) s)) c =
     (if c \<in> rooms s (fd_flipbookId p)
      then [FrameDeleted (fd_flipbookId p) (fd_frameIndex p)] else [])
   \<and> docs (fst (frame_delete_handler sk True (Some p) s)) =
       remove_first (matches (fd_flipbookId p) (fd_frameIndex p)) (docs s)"
  by (simp add: frame_delete_handler_def delivered_def Let_def Drawing_findOneAndDelete_def)

theorem frame_delete_events_witness:
  "''A'' \<in> rooms two_in_cat (Some ''cat'') \<and>
   delivered (rooms two_in_cat)
     (snd (frame_delete_handler ''A'' True
        (Some \<lparr>fd_flipbookId = Some ''cat'', fd_frameIndex = Some 0\<rparr>) two_in_cat)) ''A'' =
     [FrameDeleted (Some ''cat'') (Some 0)]"
  using frame_delete_events [of "''A''" "\<lparr>fd_flipbookId = Some ''cat'', fd_frameIndex = Some 0\<rparr>" two_in_cat "''A''"]
  by (simp add: two_in_cat_def delivered_def)

subsection \<open>C4: rename onto an occupied flipbook\<close>

text \<open>
  The existence check of the rename looks up the trimmed id, not the id as sent. With a
  frame stored under \<^verbatim>\<open>" dog"\<close> and none under \<^verbatim>\<open>"dog"\<close>, a rename of \<^verbatim>\<open>"cat"\<close> to
  \<^verbatim>\<open>" dog"\<close> is accepted, the frame of \<^verbatim>\<open>"cat"\<close> is rewritten and the rename is
  broadcast.
\<close>

theorem rename_untrimmed_target_accepted:
  "list_ex (in_flipbook (Some '' dog'')) (docs spaced_dog)
   \<and> snd (snd (rename_flipbook True True ''cat'' (Some '' dog'') spaced_dog))
       = \<lparr>status = 200, body = JRenamed ''Flipbook renamed successfully'' ''cat'' ''dog'' 1\<rparr>
   \<and> docs (fst (rename_flipbook True True ''cat'' (Some '' dog'') spaced_dog))
       = [frame ''dog'' 0 ''X'' 1, frame '' dog'' 0 ''Y'' 2]
   \<and> emitted (fst (snd (rename_flipbook True True ''cat'' (Some '' dog'') spaced_dog)))
       = [(ToRoom (Some ''cat''), FlipbookRenamed (Some ''cat'') (Some ''dog''))]"
  by (simp add: rename_flipbook_def spaced_dog_def frame_def trim_def is_space_def
        Drawing_findOne_def Drawing_updateMany_def in_flipbook_def matches_def Let_def)

text \<open>
  C4, as the code has it. When the lookup goes through and at least one frame exists
  under the trimmed new id, the rename is answered with status 400, the server's state
  (hence every frame of the old id) is unchanged, and no event is emitted. For a new id
  that is not blank the only store call is the lookup and the body is the conflict
  message.
\<close>

theorem rename_conflict_rejected:
  assumes "list_ex (in_flipbook (Some (trim new))) (docs s)"
  shows "fst (rename_flipbook True ok2 fid (Some new) s) = s
    \<and> status (snd (snd (rename_flipbook True ok2 fid (Some new) s))) = 400
    \<and> emitted (fst (snd (rename_flipbook True ok2 fid (Some new) s))) = []
    \<and> (trim new \<noteq> [] \<longrightarrow>
         snd (rename_flipbook True ok2 fid (Some new) s) =
           ([Store (OpFindOne (Some (trim new)))],
            \<lparr>status = 400, body = JError ''A flipbook with this name already exists''\<rparr>))"
proof -
  obtain e where e: "List.find (in_flipbook (Some (trim new))) (docs s) = Some e"
    using list_ex_find [OF assms] by blast
  have n: "trim new \<noteq> [] \<Longrightarrow> new \<noteq> []" by (auto simp: trim_def)
  show ?thesis using e n
    by (auto simp: rename_flipbook_def Drawing_findOne_def Let_def)
qed

theorem rename_conflict_rejected_witness:
  "list_ex (in_flipbook (Some (trim ''cat ''))) (docs spaced_dog)
   \<and> rename_flipbook True True '' dog'' (Some ''cat '') spaced_dog =
       (spaced_dog, [Store (OpFindOne (Some ''cat''))],
        \<lparr>status = 400, body = JError ''A flipbook with this name already exists''\<rparr>)"
proof -
  have t: "trim ''cat '' = ''cat''" by (simp add: trim_def is_space_def)
  have h: "list_ex (in_flipbook (Some (trim ''cat ''))) (docs spaced_dog)"
    by (simp add: t spaced_dog_def frame_def in_flipbook_def)
  from rename_conflict_rejected [OF h, of True "'' dog''"] h t show ?thesis
    by (simp add: prod_eq_iff)
qed

subsection \<open>C5: rename onto a free flipbook\<close>

text \<open>
  A new id with no frame under it does not make the rename succeed as sent. Renaming
  \<^verbatim>\<open>"cat"\<close> to \<^verbatim>\<open>" dog"\<close> succeeds, but the frames are then under \<^verbatim>\<open>"dog"\<close>: listing
  \<^verbatim>\<open>" dog"\<close> returns nothing. Renaming to the blank id \<^verbatim>\<open>" "\<close> is refused with
  status 400.
\<close>

theorem rename_target_not_as_sent:
  "\<not> list_ex (in_flipbook (Some '' dog'')) (docs two_in_cat)
   \<and> status (snd (snd (rename_flipbook True True ''cat'' (Some '' dog'') two_in_cat))) = 200
   \<and> snd (get_frames True '' dog'' (fst (rename_flipbook True True ''cat'' (Some '' dog'') two_in_cat)))
       = \<lparr>status = 200, body = JFrames []\<rparr>
   \<and> \<not> list_ex (in_flipbook (Some '' '')) (docs two_in_cat)
   \<and> rename_flipbook True True ''cat'' (Some '' '') two_in_cat
       = (two_in_cat, [], \<lparr>status = 400, body = JError ''New flipbook ID is required''\<rparr>)"
  by (simp add: rename_flipbook_def two_in_cat_def frame_def trim_def is_space_def get_frames_def
        Drawing_find_sort_def Drawing_findOne_def Drawing_updateMany_def in_flipbook_def matches_def Let_def)

text \<open>
  C5, as the code has it. The collection satisfies its unique index, the new id is not
  blank, no frame exists under the trimmed new id, and both store calls go through. Then
  the rename is answered with status 200, listing the trimmed new id returns the frames
  previously listed under the old id, in the same order and changed only in their
  flipbook id, and listing the old id returns the empty sequence.
\<close>

theorem rename_moves_frames:
  assumes "unique_frames (docs s)"
    and "trim new \<noteq> []"
    and "\<not> list_ex (in_flipbook (Some (trim new))) (docs s)"
  shows "snd (snd (rename_flipbook True True fid (Some new) s)) =
           \<lparr>status = 200,
            body = JRenamed ''Flipbook renamed successfully'' fid (trim new)
                     (length (filter (in_flipbook (Some fid)) (docs s)))\<rparr>
    \<and> snd (get_frames True (trim new) (fst (rename_flipbook True True fid (Some new) s))) =
           \<lparr>status = 200,
            body = JFrames (map (\<lambda>d. d\<lparr>flipbookId := Some (trim new)\<rparr>)
                     (sort_key frameIndex (filter (in_flipbook (Some fid)) (docs s))))\<rparr>
    \<and> snd (get_frames True fid (fst (rename_flipbook True True fid (Some new) s))) =
           \<lparr>status = 200, body = JFrames []\<rparr>"
proof -
  let ?new = "Some (trim new)" and ?old = "Some fid"
  let ?ds' = "map (rename_doc ?old ?new) (docs s)"
  note nx = not_list_ex_in_flipbook [OF assms(3)]
  from nx have none: "\<forall>d \<in> set (docs s). flipbookId d \<noteq> ?new" by simp
  have u': "unique_frames ([] @ ?ds')"
    using rename_doc_key_inj [OF none assms(1)] by simp
  have upd: "Drawing_updateMany True ?old ?new (docs s) =
      (?ds', Inr (length (filter (in_flipbook ?old) (docs s))))"
    using updateMany_loop_renames [OF none u', of 0] by (simp add: Drawing_updateMany_def)
  have r: "rename_flipbook True True fid (Some new) s =
      (s\<lparr>docs := ?ds'\<rparr>,
       [Store (OpFindOne ?new), Store (OpUpdateMany ?old ?new),
        Emit (ToRoom ?old) (FlipbookRenamed ?old ?new)],
       \<lparr>status = 200, body = JRenamed ''Flipbook renamed successfully'' fid (trim new)
                     (length (filter (in_flipbook ?old) (docs s)))\<rparr>)"
    using assms(2) trim_nonempty [OF assms(2)] nx upd
    by (simp add: rename_flipbook_def Drawing_findOne_def Let_def)
  have same: "frameIndex (d\<lparr>flipbookId := ?new\<rparr>) = frameIndex d" for d :: drawing by simp
  have a: "snd (get_frames True (trim new) (s\<lparr>docs := ?ds'\<rparr>)) =
           \<lparr>status = 200,
            body = JFrames (map (\<lambda>d. d\<lparr>flipbookId := ?new\<rparr>)
                     (sort_key frameIndex (filter (in_flipbook ?old) (docs s))))\<rparr>"
    by (simp add: get_frames_def Drawing_find_sort_def filter_new_after_rename [OF none]
          sort_key_map_same [of frameIndex "\<lambda>d. d\<lparr>flipbookId := ?new\<rparr>", OF same])
  have b: "snd (get_frames True fid (s\<lparr>docs := ?ds'\<rparr>)) = \<lparr>status = 200, body = JFrames []\<rparr>"
    by (simp add: get_frames_def Drawing_find_sort_def filter_old_after_rename [OF none])
  from a b show ?thesis by (simp add: r)
qed

theorem rename_moves_frames_witness:
  "unique_frames (docs two_in_cat) \<and> trim '' dog'' \<noteq> []
   \<and> \<not> list_ex (in_flipbook (Some (trim '' dog''))) (docs two_in_cat)
   \<and> snd (get_frames True ''dog'' (fst (rename_flipbook True True ''cat'' (Some '' dog'') two_in_cat)))
       = \<lparr>status = 200, body = JFrames [frame ''dog'' 0 ''X'' 1]\<rparr>
   \<and> snd (get_frames True ''cat'' (fst (rename_flipbook True True ''cat'' (Some '' dog'') two_in_cat)))
       = \<lparr>status = 200, body = JFrames []\<rparr>"
proof -
  have t: "trim '' dog'' = ''dog''" by (simp add: trim_def is_space_def)
  have u: "unique_frames (docs two_in_cat)" by (simp add: two_in_cat_def unique_frames_def)
  have n: "trim '' dog'' \<noteq> []" by (simp add: t)
  have x: "\<not> list_ex (in_flipbook (Some (trim '' dog''))) (docs two_in_cat)"
    by (simp add: t two_in_cat_def frame_def in_flipbook_def)
  from rename_moves_frames [OF u n x, of "''cat''"] u n x show ?thesis
    by (simp add: t two_in_cat_def frame_def in_flipbook_def)
qed

subsection \<open>C6: deleting and fetching a frame that does not exist\<close>

text \<open>
  C6. When the store call goes through, \<^verbatim>\<open>DELETE .../frame/:frameIndex\<close> answers 200
  with the success message whether or not the frame exists; when it does not exist the
  state is unchanged. \<^verbatim>\<open>GET .../frame/:frameIndex\<close> of a frame that does not exist
  answers 404.
\<close>

theorem delete_missing_ok_get_missing_404:
  "snd (snd (delete_frame True fid idx s)) =
      \<lparr>status = 200, body = JMessage ''Frame deleted successfully''\<rparr>
   \<and> (List.find (matches (Some fid) (Some idx)) (docs s) = None \<longrightarrow>
        fst (delete_frame True fid idx s) = s
        \<and> snd (get_frame True fid idx s) = \<lparr>status = 404, body = JError ''Frame not found''\<rparr>)"
proof -
  have keep: "List.find P ds = None \<Longrightarrow> remove_first P ds = ds" for P ds
    by (induction ds) (auto split: if_splits)
  show ?thesis
    by (auto simp: delete_frame_def get_frame_def Drawing_findOneAndDelete_def Drawing_findOne_def keep)
qed

theorem delete_missing_ok_get_missing_404_witness:
  "List.find (matches (Some ''cat'') (Some 7)) (docs two_in_cat) = None
   \<and> snd (snd (delete_frame True ''cat'' 7 two_in_cat)) =
       \<lparr>status = 200, body = JMessage ''Frame deleted successfully''\<rparr>
   \<and> fst (delete_frame True ''cat'' 7 two_in_cat) = two_in_cat
   \<and> snd (get_frame True ''cat'' 7 two_in_cat) = \<lparr>status = 404, body = JError ''Frame not found''\<rparr>"
  using delete_missing_ok_get_missing_404 [of "''cat''" 7 two_in_cat]
  by (simp add: two_in_cat_def frame_def matches_def)

subsection \<open>C7: the listing is sorted and has no duplicate index\<close>

text \<open>
  C7. From a collection that satisfies the unique index, every run of requests leads to
  a collection that satisfies it, and there \<^verbatim>\<open>GET .../frames\<close> returns exactly the frames
  of the flipbook, in ascending order of \<open>frameIndex\<close> and with no index twice.
\<close>

theorem frames_listing_sorted_unique:
  assumes "unique_frames (docs s)"
  shows "unique_frames (docs (run rs s))
    \<and> (\<exists>fs. snd (get_frames True fid (run rs s)) = \<lparr>status = 200, body = JFrames fs\<rparr>
          \<and> sorted (map frameIndex fs) \<and> distinct (map frameIndex fs)
          \<and> set fs = {d \<in> set (docs (run rs s)). flipbookId d = Some fid})"
proof -
  let ?s = "run rs s"
  let ?fs = "sort_key frameIndex (filter (in_flipbook (Some fid)) (docs ?s))"
  have u: "unique_frames (docs ?s)" using assms by (rule unique_run)
  have r: "snd (get_frames True fid ?s) = \<lparr>status = 200, body = JFrames ?fs\<rparr>"
    by (simp add: get_frames_def Drawing_find_sort_def)
  have srt: "sorted (map frameIndex ?fs)" by (rule sorted_sort_key)
  have dst: "distinct (map frameIndex ?fs)"
    using distinct_index_in_flipbook [OF u] by (simp add: distinct_sort_key_map)
  have st: "set ?fs = {d \<in> set (docs ?s). flipbookId d = Some fid}"
    by (auto simp: in_flipbook_def)
  from u r srt dst st show ?thesis by blast
qed

theorem frames_listing_sorted_unique_witness:
  "unique_frames (docs initial)
   \<and> (\<exists>fs. snd (get_frames True ''cat'' (run three_saves initial)) = \<lparr>status = 200, body = JFrames fs\<rparr>
         \<and> map frameIndex fs = [Some 0, Some 2]
         \<and> sorted (map frameIndex fs) \<and> distinct (map frameIndex fs))"
proof -
  have u: "unique_frames (docs initial)" by (simp add: initial_def unique_frames_def)
  have e: "snd (get_frames True ''cat'' (run three_saves initial)) =
      \<lparr>status = 200, body = JFrames [fresh_frame ''cat'' 0 ''A'' None 6 6, fresh_frame ''cat'' 2 ''C'' None 7 5]\<rparr>"
    by (simp add: three_saves_def initial_def get_frames_def save_frame_def Drawing_find_sort_def
          Drawing_findOneAndUpdate_def matches_def in_flipbook_def js_or_def fresh_frame_def Let_def)
  from frames_listing_sorted_unique [OF u, of three_saves "''cat''"] u e show ?thesis
    by (auto simp: fresh_frame_def)
qed

subsection \<open>C8: a re-added frame has fresh timestamps\<close>

text \<open>
  C8. After deleting the frame of a key and saving that key again, the stored document
  is the one the save inserts: \<open>createdAt\<close> is the clock at the insert and \<open>updatedAt\<close>
  the handler's \<^verbatim>\<open>Date.now()\<close>, whatever the deleted document carried.
\<close>

theorem delete_then_save_fresh:
  assumes "unique_frames (docs s)"
  shows "snd (snd (save_frame True now ins_at fid idx data author (fst (delete_frame True fid idx s))))
           = \<lparr>status = 200, body = JFrame (fresh_frame fid idx data author now ins_at)\<rparr>
    \<and> List.find (matches (Some fid) (Some idx))
         (docs (fst (save_frame True now ins_at fid idx data author (fst (delete_frame True fid idx s)))))
           = Some (fresh_frame fid idx data author now ins_at)
    \<and> createdAt (fresh_frame fid idx data author now ins_at) = ins_at
    \<and> updatedAt (fresh_frame fid idx data author now ins_at) = now"
proof -
  let ?ds = "remove_first (matches (Some fid) (Some idx)) (docs s)"
  have d: "docs (fst (delete_frame True fid idx s)) = ?ds"
    by (simp add: delete_frame_def Drawing_findOneAndDelete_def)
  have n: "List.find (matches (Some fid) (Some idx)) ?ds = None"
    using assms by (rule find_after_remove_first)
  have m: "matches (Some fid) (Some idx) (fresh_frame fid idx data author now ins_at)"
    by (simp add: matches_def fresh_frame_def)
  have a: "snd (snd (save_frame True now ins_at fid idx data author (fst (delete_frame True fid idx s))))
           = \<lparr>status = 200, body = JFrame (fresh_frame fid idx data author now ins_at)\<rparr>"
    using n by (simp add: save_frame_def Drawing_findOneAndUpdate_def d fresh_frame_def Let_def)
  have b: "docs (fst (save_frame True now ins_at fid idx data author (fst (delete_frame True fid idx s))))
      = ?ds @ [fresh_frame fid idx data author now ins_at]"
    using n by (simp add: save_frame_def Drawing_findOneAndUpdate_def d fresh_frame_def Let_def)
  have c: "List.find (matches (Some fid) (Some idx)) (?ds @ [fresh_frame fid idx data author now ins_at])
      = Some (fresh_frame fid idx data author now ins_at)"
    using n m by (rule find_append_new)
  show ?thesis using a b c by (simp add: fresh_frame_def)
qed

theorem delete_then_save_fresh_witness:
  "unique_frames (docs two_in_cat)
   \<and> List.find (matches (Some ''cat'') (Some 0)) (docs two_in_cat) = Some (frame ''cat'' 0 ''X'' 1)
   \<and> List.find (matches (Some ''cat'') (Some 0))
       (docs (fst (save_frame True 8 9 ''cat'' 0 ''Z'' (Some ''bob'') (fst (delete_frame True ''cat'' 0 two_in_cat)))))
       = Some \<lparr>flipbookId = Some ''cat'', frameIndex = Some 0, drawingData = ''Z'',
               createdAt = 9, updatedAt = 8, createdBy = ''bob''\<rparr>"
proof -
  have u: "unique_frames (docs two_in_cat)" by (simp add: two_in_cat_def unique_frames_def)
  have o: "List.find (matches (Some ''cat'') (Some 0)) (docs two_in_cat) = Some (frame ''cat'' 0 ''X'' 1)"
    by (simp add: two_in_cat_def frame_def matches_def)
  from delete_then_save_fresh [OF u, of 8 9 "''cat''" 0 "''Z''" "Some ''bob''"] u o show ?thesis
    by (simp add: fresh_frame_def js_or_def)
qed

subsection \<open>C9: joining and leaving are idempotent\<close>

text \<open>
  C9. Joining a room twice leaves the server as joining once does; leaving a room the
  socket is not in leaves the server unchanged; neither handler emits an error event.
\<close>

theorem join_leave_idempotent:
  "fst (join_flipbook sk ok2 fid (fst (join_flipbook sk ok1 fid s))) = fst (join_flipbook sk ok1 fid s)
   \<and> (sk \<notin> rooms s fid \<longrightarrow> fst (leave_flipbook sk fid s) = s)
   \<and> (\<forall>t m. (t, DrawingError m) \<notin> set (emitted (snd (join_flipbook sk ok1 fid s))))
   \<and> emitted (snd (leave_flipbook sk fid s)) = []"
  by (auto simp: join_flipbook_def leave_flipbook_def room_join_def room_leave_def
        Drawing_find_sort_def Let_def insert_absorb)

theorem join_leave_idempotent_witness:
  "''C'' \<notin> rooms two_in_cat (Some ''cat'')
   \<and> fst (leave_flipbook ''C'' (Some ''cat'') two_in_cat) = two_in_cat
   \<and> fst (join_flipbook ''C'' True (Some ''cat'') (fst (join_flipbook ''C'' True (Some ''cat'') two_in_cat)))
       = fst (join_flipbook ''C'' True (Some ''cat'') two_in_cat)"
  using join_leave_idempotent [of "''C''" True "Some ''cat''" True two_in_cat]
  by (simp add: two_in_cat_def)

subsection \<open>C10: a join whose snapshot cannot be fetched\<close>

text \<open>
  C10. \<^verbatim>\<open>join-flipbook\<close> joins the room before it queries the store. When the query
  throws, the failure is logged and nothing is emitted, neither \<^verbatim>\<open>flipbook-state\<close> nor an
  error event, and the socket is a member of the room, so that later broadcasts to the
  room reach it.
\<close>

theorem join_fetch_failure:
  "snd (join_flipbook sk False fid s) =
     [RoomJoin sk fid, LogInfo ''joined flipbook'', Store (OpFind fid),
      LogError ''Error sending flipbook state:'']
   \<and> emitted (snd (join_flipbook sk False fid s)) = []
   \<and> sk \<in> rooms (fst (join_flipbook sk False fid s)) fid
   \<and> sk \<in> recipients (rooms (fst (join_flipbook sk False fid s))) (ToRoom fid)
   \<and> docs (fst (join_flipbook sk False fid s)) = docs s"
  by (simp add: join_flipbook_def room_join_def Drawing_find_sort_def Let_def)

theorem join_fetch_failure_witness:
  "''C'' \<notin> rooms two_in_cat (Some ''cat'')
   \<and> rooms (fst (join_flipbook ''C'' False (Some ''cat'') two_in_cat)) (Some ''cat'') = {''A'', ''B'', ''C''}
   \<and> emitted (snd (join_flipbook ''C'' False (Some ''cat'') two_in_cat)) = []"
  using join_fetch_failure [of "''C''" "Some ''cat''" two_in_cat]
  by (auto simp: two_in_cat_def join_flipbook_def room_join_def Drawing_find_sort_def Let_def)

end
